theory Spec2Isabelle
  imports Complex_Main
begin

section \<open>Values exchanged with the server\<close>

text \<open>
  The module \<^verbatim>\<open>sse_server.py\<close> handles parsed JSON: what \<^verbatim>\<open>request.json()\<close>
  returns and what the endpoints return to FastAPI. A Python \<^verbatim>\<open>None\<close> is \<open>JNull\<close>,
  a \<^verbatim>\<open>dict\<close> is \<open>JObj\<close> (an association list read with \<open>map_of\<close>), a
  \<^verbatim>\<open>float\<close> is carried as a real that is never computed with.
\<close>

datatype json =
    JNull
  | JBool bool
  | JInt int
  | JFloat real
  | JStr string
  | JArr "json list"
  | JObj "(string \<times> json) list"

text \<open>
  Exceptions (instances of \<^verbatim>\<open>Exception\<close>): \<^verbatim>\<open>asyncio.TimeoutError\<close>, which the
  streaming loop tells apart, and any other one with the text \<^verbatim>\<open>str(e)\<close> gives.
\<close>

datatype exc = TimeoutError | Error string

fun exc_str :: "exc \<Rightarrow> string" where
  "exc_str TimeoutError = []"
| "exc_str (Error m) = m"

fun type_name :: "json \<Rightarrow> string" where
  "type_name JNull = ''NoneType''"
| "type_name (JBool _) = ''bool''"
| "type_name (JInt _) = ''int''"
| "type_name (JFloat _) = ''float''"
| "type_name (JStr _) = ''str''"
| "type_name (JArr _) = ''list''"
| "type_name (JObj _) = ''dict''"

definition quoted :: "string \<Rightarrow> string" where
  "quoted s = CHR 0x27 # s @ [CHR 0x27]"

text \<open>The \<^verbatim>\<open>AttributeError\<close> of \<^verbatim>\<open>v.get\<close> on a value that has no such method.\<close>

definition no_get :: "json \<Rightarrow> exc" where
  "no_get v = Error (quoted (type_name v) @ '' object has no attribute '' @ quoted ''get'')"

text \<open>\<^verbatim>\<open>v.get(k, d)\<close>: only a dict has \<^verbatim>\<open>get\<close>.\<close>

fun py_get :: "json \<Rightarrow> string \<Rightarrow> json \<Rightarrow> exc + json" where
  "py_get (JObj kvs) k d = Inr (case map_of kvs k of Some v \<Rightarrow> v | None \<Rightarrow> d)"
| "py_get v k d = Inl (no_get v)"

fun is_dict :: "json \<Rightarrow> bool" where
  "is_dict (JObj _) = True"
| "is_dict _ = False"

text \<open>Truth value of an optional string: \<^verbatim>\<open>None\<close> and \<^verbatim>\<open>""\<close> are false.\<close>

fun truthy :: "string option \<Rightarrow> bool" where
  "truthy None = False"
| "truthy (Some t) = (t \<noteq> [])"

section \<open>Configurations and clients\<close>

text \<open>
  Modelled from the spec: the classes \<^verbatim>\<open>JiraConfig\<close>, \<^verbatim>\<open>ConfluenceConfig\<close>
  (module \<^verbatim>\<open>config\<close>), \<^verbatim>\<open>JiraClient\<close> and \<^verbatim>\<open>ConfluenceClient\<close> are not among the
  source files. The spec's ServiceConfig is \<^verbatim>\<open>{baseUrl, credential (token |
  username+apiToken), sslVerify}\<close> and its ServiceClient wraps a configuration and an
  optionally present session, created on first use. The constructors below take the
  keyword arguments the source passes (\<^verbatim>\<open>url\<close>, \<^verbatim>\<open>personal_token\<close>, \<^verbatim>\<open>ssl_verify\<close>);
  what is not passed is absent.
\<close>

record service_config =
  url :: string
  username :: "string option"
  api_token :: "string option"
  personal_token :: "string option"
  ssl_verify :: bool

record service_client =
  config :: service_config
  session :: "nat option"

definition JiraConfig :: "string \<Rightarrow> string \<Rightarrow> bool \<Rightarrow> service_config" where
  "JiraConfig u t v =
     \<lparr>url = u, username = None, api_token = None, personal_token = Some t, ssl_verify = v\<rparr>"

definition ConfluenceConfig :: "string \<Rightarrow> string \<Rightarrow> bool \<Rightarrow> service_config" where
  "ConfluenceConfig u t v =
     \<lparr>url = u, username = None, api_token = None, personal_token = Some t, ssl_verify = v\<rparr>"

definition JiraClient :: "service_config \<Rightarrow> service_client" where
  "JiraClient c = \<lparr>config = c, session = None\<rparr>"

definition ConfluenceClient :: "service_config \<Rightarrow> service_client" where
  "ConfluenceClient c = \<lparr>config = c, session = None\<rparr>"

section \<open>The dispatcher and the process state\<close>

text \<open>
  The dispatcher lives in the module \<^verbatim>\<open>server\<close>, which is not among the source files;
  its handlers are parameters. \<^verbatim>\<open>handle_call_tool\<close> and \<^verbatim>\<open>handle_list_resources\<close>
  work with the module globals \<^verbatim>\<open>server.jira_client\<close> and
  \<^verbatim>\<open>server.confluence_client\<close>, so they take the two clients those globals hold
  when they run. Each handler returns or raises.
\<close>

record tool =
  tname :: json
  tdescription :: json
  tinputSchema :: json

record resource =
  ruri :: string
  rname :: json
  rdescription :: json
  rmimeType :: json

record env =
  get_capabilities :: "exc + json"
  get_capabilities_noargs :: "exc + json"
  handle_list_tools :: "exc + tool list"
  handle_call_tool :: "service_client \<Rightarrow> service_client \<Rightarrow> json \<Rightarrow> json \<Rightarrow> exc + json"
  handle_list_resources :: "service_client \<Rightarrow> service_client \<Rightarrow> exc + resource list"
  str_other :: "json \<Rightarrow> string"
  time_time :: "nat \<Rightarrow> real"

text \<open>
  \<open>get_capabilities\<close> is \<^verbatim>\<open>server.get_capabilities(notification_options=...,
  experimental_capabilities={}).model_dump()\<close> of the initialize branch,
  \<open>get_capabilities_noargs\<close> is \<^verbatim>\<open>server.get_capabilities().model_dump()\<close> of the
  streaming handshake, \<open>str_other\<close> is Python's \<^verbatim>\<open>str\<close> on a value that is
  neither a string nor \<^verbatim>\<open>None\<close> nor a boolean, and \<open>time_time k\<close> is what the
  call number \<open>k\<close> of \<^verbatim>\<open>time.time()\<close> returns.

  The state: \<open>jira_client\<close> and \<open>confluence_client\<close> are the names
  \<^verbatim>\<open>sse_server\<close> imports from \<^verbatim>\<open>.jira\<close> and \<^verbatim>\<open>.confluence\<close> (the default
  clients); \<open>sm_jira_client\<close> and \<open>sm_confluence_client\<close> are the globals of
  \<^verbatim>\<open>server_module\<close> that the source assigns. \<open>dispatch_log\<close> is a ghost
  field: one entry per run of \<^verbatim>\<open>handle_call_tool\<close> or \<^verbatim>\<open>handle_list_resources\<close>,
  the pair of clients the globals held during that run.
\<close>

record server_state =
  jira_client :: service_client
  confluence_client :: service_client
  sm_jira_client :: service_client
  sm_confluence_client :: service_client
  dispatch_log :: "(service_client \<times> service_client) list"

section \<open>Response envelopes\<close>

definition result_envelope :: "json \<Rightarrow> json \<Rightarrow> json" where
  "result_envelope request_id res =
     JObj [(''jsonrpc'', JStr ''2.0''), (''id'', request_id), (''result'', res)]"

definition error_envelope :: "json \<Rightarrow> int \<Rightarrow> string \<Rightarrow> string \<Rightarrow> json" where
  "error_envelope request_id code message dat =
     JObj [(''jsonrpc'', JStr ''2.0''), (''id'', request_id),
           (''error'', JObj [(''code'', JInt code), (''message'', JStr message),
                             (''data'', JStr dat)])]"

definition not_found_envelope :: "json \<Rightarrow> string \<Rightarrow> json" where
  "not_found_envelope request_id message =
     JObj [(''jsonrpc'', JStr ''2.0''), (''id'', request_id),
           (''error'', JObj [(''code'', JInt (- 32601)), (''message'', JStr message)])]"

text \<open>What an f-string puts for \<^verbatim>\<open>{method}\<close>.\<close>

fun py_str :: "env \<Rightarrow> json \<Rightarrow> string" where
  "py_str E (JStr s) = s"
| "py_str E JNull = ''None''"
| "py_str E (JBool b) = (if b then ''True'' else ''False'')"
| "py_str E v = str_other E v"

section \<open>\<^verbatim>\<open>process_mcp_request\<close>\<close>

text \<open>Lines 277 to 303: the temporary clients and the clients in force.\<close>

definition temp_jira_client_of :: "server_state \<Rightarrow> string option \<Rightarrow> service_client option" where
  "temp_jira_client_of s jira_token =
     (case jira_token of
        None \<Rightarrow> None
      | Some t \<Rightarrow>
          if t = [] then None
          else Some (JiraClient (JiraConfig (url (config (jira_client s))) t
                                   (ssl_verify (config (jira_client s))))))"

definition temp_confluence_client_of ::
  "server_state \<Rightarrow> string option \<Rightarrow> service_client option" where
  "temp_confluence_client_of s confluence_token =
     (case confluence_token of
        None \<Rightarrow> None
      | Some t \<Rightarrow>
          if t = [] then None
          else Some (ConfluenceClient (ConfluenceConfig (url (config (confluence_client s))) t
                                         (ssl_verify (config (confluence_client s))))))"

text \<open>\<^verbatim>\<open>temp_jira_client or jira_client\<close>: a client object is true.\<close>

definition active_jira_client :: "server_state \<Rightarrow> string option \<Rightarrow> service_client" where
  "active_jira_client s jira_token =
     (case temp_jira_client_of s jira_token of Some c \<Rightarrow> c | None \<Rightarrow> jira_client s)"

definition active_confluence_client :: "server_state \<Rightarrow> string option \<Rightarrow> service_client" where
  "active_confluence_client s confluence_token =
     (case temp_confluence_client_of s confluence_token of
        Some c \<Rightarrow> c | None \<Rightarrow> confluence_client s)"

text \<open>
  Lines 363 to 370 and 404 to 410: the globals of \<^verbatim>\<open>server_module\<close> are replaced
  where a temporary client exists. Lines 382 to 385 and 428 to 431: the
  \<^verbatim>\<open>finally\<close> block assigns the saved values back.
\<close>

definition install ::
  "service_client option \<Rightarrow> service_client option \<Rightarrow> server_state \<Rightarrow> server_state" where
  "install temp_jira_client temp_confluence_client s =
     (let s1 = (case temp_jira_client of
                  Some c \<Rightarrow> s\<lparr>sm_jira_client := c\<rparr> | None \<Rightarrow> s)
      in (case temp_confluence_client of
            Some c \<Rightarrow> s1\<lparr>sm_confluence_client := c\<rparr> | None \<Rightarrow> s1))"

definition restore :: "service_client \<Rightarrow> service_client \<Rightarrow> server_state \<Rightarrow> server_state" where
  "restore original_jira original_confluence s =
     s\<lparr>sm_jira_client := original_jira, sm_confluence_client := original_confluence\<rparr>"

text \<open>The dispatcher runs with the globals as they are, which the ghost log records.\<close>

definition observe :: "server_state \<Rightarrow> server_state" where
  "observe s = s\<lparr>dispatch_log := dispatch_log s @ [(sm_jira_client s, sm_confluence_client s)]\<rparr>"

text \<open>Lines 305 to 324, the branch \<^verbatim>\<open>initialize\<close>; a raise goes to the outer handler.\<close>

definition initialize_branch :: "env \<Rightarrow> json \<Rightarrow> exc + json" where
  "initialize_branch E request_id =
     (case get_capabilities E of
        Inl e \<Rightarrow> Inl e
      | Inr capabilities \<Rightarrow>
          Inr (result_envelope request_id
                 (JObj [(''protocolVersion'', JStr ''2024-11-05''),
                        (''capabilities'', capabilities),
                        (''serverInfo'', JObj [(''name'', JStr ''mcp-jira-confluence''),
                                               (''version'', JStr ''0.3.0'')])])))"

text \<open>Lines 326 to 354, the branch \<^verbatim>\<open>tools/list\<close>, with its own handler.\<close>

definition tool_entry :: "tool \<Rightarrow> json" where
  "tool_entry t =
     JObj [(''name'', tname t), (''description'', tdescription t),
           (''inputSchema'', tinputSchema t)]"

definition tools_list_branch :: "env \<Rightarrow> json \<Rightarrow> json" where
  "tools_list_branch E request_id =
     (case handle_list_tools E of
        Inr tool_list \<Rightarrow>
          result_envelope request_id (JObj [(''tools'', JArr (map tool_entry tool_list))])
      | Inl e \<Rightarrow>
          error_envelope request_id (- 32603) ''Internal error''
            (''Failed to get tools: '' @ exc_str e))"

text \<open>
  Lines 356 to 397, the branch \<^verbatim>\<open>tools/call\<close>. The two \<^verbatim>\<open>params.get\<close> stand
  before the inner \<^verbatim>\<open>try\<close>: their raise goes to the outer handler, with the
  globals untouched.
\<close>

definition tools_call_branch ::
  "env \<Rightarrow> server_state \<Rightarrow> json \<Rightarrow> json \<Rightarrow> service_client option \<Rightarrow> service_client option
     \<Rightarrow> server_state \<times> (exc + json)" where
  "tools_call_branch E s params request_id temp_jira_client temp_confluence_client =
     (case py_get params ''name'' JNull of
        Inl e \<Rightarrow> (s, Inl e)
      | Inr tool_name \<Rightarrow>
         (case py_get params ''arguments'' (JObj []) of
            Inl e \<Rightarrow> (s, Inl e)
          | Inr arguments \<Rightarrow>
             (let original_jira = sm_jira_client s;
                  original_confluence = sm_confluence_client s;
                  s1 = install temp_jira_client temp_confluence_client s;
                  result = handle_call_tool E (sm_jira_client s1) (sm_confluence_client s1)
                             tool_name arguments;
                  s2 = restore original_jira original_confluence (observe s1)
              in (s2,
                  Inr (case result of
                         Inr res \<Rightarrow> result_envelope request_id (JObj [(''content'', res)])
                       | Inl e \<Rightarrow>
                           error_envelope request_id (- 32603) ''Internal error''
                             (''Tool execution failed: '' @ exc_str e))))))"

text \<open>Lines 399 to 443, the branch \<^verbatim>\<open>resources/list\<close>.\<close>

definition resource_entry :: "resource \<Rightarrow> json" where
  "resource_entry r =
     JObj [(''uri'', JStr (ruri r)), (''name'', rname r), (''description'', rdescription r),
           (''mimeType'', rmimeType r)]"

definition resources_list_branch ::
  "env \<Rightarrow> server_state \<Rightarrow> json \<Rightarrow> service_client option \<Rightarrow> service_client option
     \<Rightarrow> server_state \<times> (exc + json)" where
  "resources_list_branch E s request_id temp_jira_client temp_confluence_client =
     (let original_jira = sm_jira_client s;
          original_confluence = sm_confluence_client s;
          s1 = install temp_jira_client temp_confluence_client s;
          result = handle_list_resources E (sm_jira_client s1) (sm_confluence_client s1);
          s2 = restore original_jira original_confluence (observe s1)
      in (s2,
          Inr (case result of
                 Inr resource_list \<Rightarrow>
                   result_envelope request_id
                     (JObj [(''resources'', JArr (map resource_entry resource_list))])
               | Inl e \<Rightarrow>
                   error_envelope request_id (- 32603) ''Internal error''
                     (''Failed to get resources: '' @ exc_str e))))"

text \<open>
  The body of the outer \<^verbatim>\<open>try\<close> (lines 273 to 453). \<open>Inl e\<close> is an exception
  that reaches the outer handler.
\<close>

definition process_try ::
  "env \<Rightarrow> server_state \<Rightarrow> json \<Rightarrow> string option \<Rightarrow> string option
     \<Rightarrow> server_state \<times> (exc + json)" where
  "process_try E s request_data jira_token confluence_token =
     (case py_get request_data ''method'' JNull of
        Inl e \<Rightarrow> (s, Inl e)
      | Inr method_name \<Rightarrow>
     (case py_get request_data ''params'' (JObj []) of
        Inl e \<Rightarrow> (s, Inl e)
      | Inr params \<Rightarrow>
     (case py_get request_data ''id'' JNull of
        Inl e \<Rightarrow> (s, Inl e)
      | Inr request_id \<Rightarrow>
         (let temp_jira_client = temp_jira_client_of s jira_token;
              temp_confluence_client = temp_confluence_client_of s confluence_token;
              active_jira = active_jira_client s jira_token;
              active_confluence = active_confluence_client s confluence_token
          in if method_name = JStr ''initialize'' then (s, initialize_branch E request_id)
             else if method_name = JStr ''tools/list'' then
               (s, Inr (tools_list_branch E request_id))
             else if method_name = JStr ''tools/call'' then
               tools_call_branch E s params request_id temp_jira_client temp_confluence_client
             else if method_name = JStr ''resources/list'' then
               resources_list_branch E s request_id temp_jira_client temp_confluence_client
             else
               (s, Inr (not_found_envelope request_id
                          (''Method not found: '' @ py_str E method_name)))))))"

text \<open>
  The function with its outer handler (lines 455 to 465), which reads
  \<^verbatim>\<open>request_data.get("id")\<close> again. \<open>Inl e\<close> is an exception that leaves the
  function.
\<close>

definition process_mcp_request ::
  "env \<Rightarrow> server_state \<Rightarrow> json \<Rightarrow> string option \<Rightarrow> string option
     \<Rightarrow> server_state \<times> (exc + json)" where
  "process_mcp_request E s request_data jira_token confluence_token =
     (case process_try E s request_data jira_token confluence_token of
        (s', Inr response) \<Rightarrow> (s', Inr response)
      | (s', Inl e) \<Rightarrow>
          (case py_get request_data ''id'' JNull of
             Inl e' \<Rightarrow> (s', Inl e')
           | Inr request_id \<Rightarrow>
               (s', Inr (error_envelope request_id (- 32603) ''Internal error'' (exc_str e)))))"

section \<open>\<^verbatim>\<open>mcp_endpoint\<close>\<close>

text \<open>
  Lines 240 to 252 (and, word for word, lines 135 to 147 of \<^verbatim>\<open>sse_endpoint\<close>):
  the tokens taken from the headers. Header names are looked up in lower case.
\<close>

definition extract_tokens :: "(string \<rightharpoonup> string) \<Rightarrow> string option \<times> string option" where
  "extract_tokens headers =
     (let auth_header = headers ''authorization'';
          jira_token = headers ''x-jira-token'';
          confluence_token = headers ''x-confluence-token''
      in (case auth_header of
            None \<Rightarrow> (jira_token, confluence_token)
          | Some a \<Rightarrow>
              if a \<noteq> [] \<and> take 7 a = ''Bearer '' then
                (let token = drop 7 a
                 in (if \<not> truthy jira_token then Some token else jira_token,
                     if \<not> truthy confluence_token then Some token else confluence_token))
              else (jira_token, confluence_token)))"

text \<open>
  The endpoint. \<open>body\<close> is what \<^verbatim>\<open>await request.json()\<close> does: it raises or
  returns the parsed value. \<open>Inl e\<close> in the result is an exception that leaves
  the endpoint, which the framework answers with a plain 500 response. When
  \<^verbatim>\<open>request.json()\<close> has raised, \<^verbatim>\<open>request_data\<close> is not among the locals and
  the id is \<^verbatim>\<open>None\<close>; otherwise the handler evaluates
  \<^verbatim>\<open>request_data.get("id")\<close>.
\<close>

definition mcp_endpoint ::
  "env \<Rightarrow> server_state \<Rightarrow> (string \<rightharpoonup> string) \<Rightarrow> exc + json \<Rightarrow> server_state \<times> (exc + json)" where
  "mcp_endpoint E s headers body =
     (case body of
        Inl e \<Rightarrow> (s, Inr (error_envelope JNull (- 32603) ''Internal error'' (exc_str e)))
      | Inr request_data \<Rightarrow>
          (let (jira_token, confluence_token) = extract_tokens headers
           in (case process_mcp_request E s request_data jira_token confluence_token of
                 (s', Inr response) \<Rightarrow> (s', Inr response)
               | (s', Inl e) \<Rightarrow>
                   (case py_get request_data ''id'' JNull of
                      Inl e' \<Rightarrow> (s', Inl e')
                    | Inr request_id \<Rightarrow>
                        (s', Inr (error_envelope request_id (- 32603) ''Internal error''
                                    (exc_str e)))))))"

section \<open>The SSE transport\<close>

text \<open>
  Class \<^verbatim>\<open>SSETransport\<close> (lines 60 to 84). An \<^verbatim>\<open>asyncio.Queue\<close> object is a
  number (its identity) and the store \<open>queues\<close> holds what each queue contains,
  oldest first; \<open>next_queue\<close> is the identity the next \<^verbatim>\<open>asyncio.Queue()\<close> gets.
  A queued item is the message that \<^verbatim>\<open>json.dumps\<close> has serialised.
\<close>

record sse_transport =
  connected_clients :: "nat set"
  queues :: "nat \<Rightarrow> json list"
  next_queue :: nat

definition add_client :: "sse_transport \<Rightarrow> nat \<times> sse_transport" where
  "add_client T =
     (let client_queue = next_queue T
      in (client_queue,
          T\<lparr>connected_clients := insert client_queue (connected_clients T),
            queues := (queues T)(client_queue := []),
            next_queue := Suc client_queue\<rparr>))"

text \<open>\<^verbatim>\<open>set.discard\<close> removes the element if it is there and never raises.\<close>

definition remove_client :: "nat \<Rightarrow> sse_transport \<Rightarrow> sse_transport" where
  "remove_client client_queue T =
     T\<lparr>connected_clients := connected_clients T - {client_queue}\<rparr>"

text \<open>\<^verbatim>\<open>send_message\<close>: the message is put at the end of every connected queue.\<close>

definition send_message :: "json \<Rightarrow> sse_transport \<Rightarrow> sse_transport" where
  "send_message message T =
     T\<lparr>queues := (\<lambda>q. if q \<in> connected_clients T then queues T q @ [message]
                      else queues T q)\<rparr>"

section \<open>The generator \<^verbatim>\<open>event_stream\<close>\<close>

text \<open>
  The messages the generator builds (lines 175 to 186, 197 to 201, 205 to 212 and 218
  to 225). A yielded frame \<^verbatim>\<open>data: <json>\n\n\<close> is given by its JSON value.
\<close>

definition init_message :: "json \<Rightarrow> json" where
  "init_message capabilities =
     JObj [(''jsonrpc'', JStr ''2.0''), (''method'', JStr ''notifications/initialized''),
           (''params'',
            JObj [(''protocolVersion'', JStr ''2024-11-05''),
                  (''capabilities'', capabilities),
                  (''serverInfo'', JObj [(''name'', JStr ''mcp-jira-confluence''),
                                         (''version'', JStr ''0.3.0'')])])]"

definition heartbeat :: "real \<Rightarrow> json" where
  "heartbeat timestamp =
     JObj [(''jsonrpc'', JStr ''2.0''), (''method'', JStr ''notifications/heartbeat''),
           (''params'', JObj [(''timestamp'', JFloat timestamp)])]"

definition error_message :: "string \<Rightarrow> string \<Rightarrow> json" where
  "error_message message dat =
     JObj [(''jsonrpc'', JStr ''2.0''),
           (''error'', JObj [(''code'', JInt (- 32603)), (''message'', JStr message),
                             (''data'', JStr dat)])]"

text \<open>
  The generator is a coroutine; its control state says where it is suspended:
  at one of its five \<^verbatim>\<open>yield\<close> statements (lines 187, 194, 202, 213, 226), in
  \<^verbatim>\<open>await asyncio.wait_for(client_queue.get(), timeout=30.0)\<close> (line 193), or
  finished. \<open>frames\<close> are the frames yielded so far, each tagged with the
  \<^verbatim>\<open>yield\<close> it came from; \<open>time_reads\<close> counts the calls of
  \<^verbatim>\<open>time.time()\<close>; \<open>deregistrations\<close> is a ghost counter of the runs of the
  \<^verbatim>\<open>finally\<close> block, which is the only caller of \<^verbatim>\<open>remove_client\<close>.
\<close>

datatype pc =
  At_handshake | Waiting | At_message | At_heartbeat | At_error | At_stream_error | Finished

datatype origin = Handshake | Forwarded | Heartbeat | Internal_error | Stream_error

record stream =
  transport :: sse_transport
  client_queue :: nat
  point :: pc
  frames :: "(origin \<times> json) list"
  time_reads :: nat
  deregistrations :: nat

text \<open>
  What happens while the generator is suspended. \<open>Put m\<close>: some task calls
  \<^verbatim>\<open>send_message(m)\<close>. \<open>Proceed\<close>: the suspended operation completes (the consumer
  asks for the next frame; \<^verbatim>\<open>get\<close> returns the oldest item of a queue that is not
  empty). \<open>Raise e\<close>: the suspended operation raises the exception \<open>e\<close> inside
  the generator (\<^verbatim>\<open>wait_for\<close> raises, \<^verbatim>\<open>asyncio.TimeoutError\<close> after 30 seconds
  without an item; or the consumer throws at a \<^verbatim>\<open>yield\<close>). \<open>Close\<close>: the
  transport closes the connection (\<^verbatim>\<open>GeneratorExit\<close> or \<^verbatim>\<open>CancelledError\<close>,
  which \<^verbatim>\<open>except Exception\<close> does not catch).
\<close>

datatype event = Put json | Proceed | Raise exc | Close

definition emit :: "origin \<Rightarrow> json \<Rightarrow> pc \<Rightarrow> stream \<Rightarrow> stream" where
  "emit orig v p S = S\<lparr>frames := frames S @ [(orig, v)], point := p\<rparr>"

text \<open>Lines 227 to 229, the \<^verbatim>\<open>finally\<close> block.\<close>

definition cleanup :: "stream \<Rightarrow> stream" where
  "cleanup S =
     S\<lparr>transport := remove_client (client_queue S) (transport S),
       deregistrations := Suc (deregistrations S),
       point := Finished\<rparr>"

text \<open>Lines 195 to 202, the handler of \<^verbatim>\<open>asyncio.TimeoutError\<close>.\<close>

definition send_heartbeat :: "env \<Rightarrow> stream \<Rightarrow> stream" where
  "send_heartbeat E S =
     emit Heartbeat (heartbeat (time_time E (time_reads S))) At_heartbeat
       (S\<lparr>time_reads := Suc (time_reads S)\<rparr>)"

text \<open>
  The handlers of the inner \<^verbatim>\<open>try\<close> (lines 195 to 214), which covers the wait
  and the \<^verbatim>\<open>yield\<close> of a message, and the handler of the outer one (lines 216 to
  226).
\<close>

fun inner_handlers :: "env \<Rightarrow> exc \<Rightarrow> stream \<Rightarrow> stream" where
  "inner_handlers E TimeoutError S = send_heartbeat E S"
| "inner_handlers E (Error m) S =
     emit Internal_error (error_message ''Internal error'' m) At_error S"

definition outer_handler :: "exc \<Rightarrow> stream \<Rightarrow> stream" where
  "outer_handler e S =
     emit Stream_error (error_message ''Stream error'' (exc_str e)) At_stream_error S"

text \<open>\<^verbatim>\<open>client_queue.get()\<close> on a queue with an item; on an empty one the wait goes on.\<close>

definition take_message :: "stream \<Rightarrow> stream" where
  "take_message S =
     (case queues (transport S) (client_queue S) of
        [] \<Rightarrow> S
      | message # rest \<Rightarrow>
          emit Forwarded message At_message
            (S\<lparr>transport :=
                 (transport S)\<lparr>queues := (queues (transport S))(client_queue S := rest)\<rparr>\<rparr>))"

fun resume :: "env \<Rightarrow> event \<Rightarrow> stream \<Rightarrow> stream" where
  "resume E (Put m) S = S\<lparr>transport := send_message m (transport S)\<rparr>"
| "resume E Close S = (if point S = Finished then S else cleanup S)"
| "resume E Proceed S =
     (case point S of
        At_handshake \<Rightarrow> S\<lparr>point := Waiting\<rparr>
      | Waiting \<Rightarrow> take_message S
      | At_message \<Rightarrow> S\<lparr>point := Waiting\<rparr>
      | At_heartbeat \<Rightarrow> S\<lparr>point := Waiting\<rparr>
      | At_error \<Rightarrow> cleanup S
      | At_stream_error \<Rightarrow> cleanup S
      | Finished \<Rightarrow> S)"
| "resume E (Raise e) S =
     (case point S of
        At_handshake \<Rightarrow> outer_handler e S
      | Waiting \<Rightarrow> inner_handlers E e S
      | At_message \<Rightarrow> inner_handlers E e S
      | At_heartbeat \<Rightarrow> outer_handler e S
      | At_error \<Rightarrow> outer_handler e S
      | At_stream_error \<Rightarrow> cleanup S
      | Finished \<Rightarrow> S)"

text \<open>
  Lines 170 to 187: the generator starts, registers its queue and builds the
  handshake inside the outer \<^verbatim>\<open>try\<close>.
\<close>

definition event_stream_start :: "env \<Rightarrow> sse_transport \<Rightarrow> stream" where
  "event_stream_start E T =
     (let (q, T1) = add_client T;
          S = \<lparr>transport = T1, client_queue = q, point = At_handshake, frames = [],
               time_reads = 0, deregistrations = 0\<rparr>
      in (case get_capabilities_noargs E of
            Inr capabilities \<Rightarrow> emit Handshake (init_message capabilities) At_handshake S
          | Inl e \<Rightarrow> outer_handler e S))"

fun run_stream :: "env \<Rightarrow> event list \<Rightarrow> stream \<Rightarrow> stream" where
  "run_stream E [] S = S"
| "run_stream E (ev # evs) S = run_stream E evs (resume E ev S)"

definition event_stream :: "env \<Rightarrow> sse_transport \<Rightarrow> event list \<Rightarrow> stream" where
  "event_stream E T evs = run_stream E evs (event_stream_start E T)"

text \<open>
  \<^verbatim>\<open>sse_endpoint\<close> (lines 131 to 231): the tokens and the temporary configurations
  are computed from the headers, then the response streams the generator.
\<close>

definition sse_endpoint ::
  "env \<Rightarrow> server_state \<Rightarrow> sse_transport \<Rightarrow> (string \<rightharpoonup> string) \<Rightarrow> event list \<Rightarrow> stream" where
  "sse_endpoint E s T headers evs =
     (let (jira_token, confluence_token) = extract_tokens headers;
          temp_jira_config =
            (if truthy jira_token
             then Some (JiraConfig (url (config (jira_client s)))
                          (case jira_token of Some t \<Rightarrow> t | None \<Rightarrow> [])
                          (ssl_verify (config (jira_client s))))
             else None);
          temp_confluence_config =
            (if truthy confluence_token
             then Some (ConfluenceConfig (url (config (confluence_client s)))
                          (case confluence_token of Some t \<Rightarrow> t | None \<Rightarrow> [])
                          (ssl_verify (config (confluence_client s))))
             else None)
      in event_stream E T evs)"

section \<open>Invocations in flight together\<close>

text \<open>
  \<^verbatim>\<open>process_mcp_request\<close> is a coroutine, and the server runs the coroutines of
  all requests in flight on one event loop: a coroutine runs alone until it waits.
  In the branch \<^verbatim>\<open>tools/call\<close> the only wait is
  \<^verbatim>\<open>await server_module.handle_call_tool(...)\<close> (line 373). So an invocation runs
  in two parts. Entering: the globals are saved and replaced (lines 364 to 370), the
  dispatcher starts with the globals as they are and runs until it waits for its
  upstream call. Leaving: the dispatcher returns or raises and the \<^verbatim>\<open>finally\<close>
  block assigns the saved values back (lines 382 to 385). Between the two parts
  other invocations may enter and leave.

  \<open>saved\<close> holds the locals \<^verbatim>\<open>original_jira\<close> and \<^verbatim>\<open>original_confluence\<close> of
  each invocation in flight; \<open>seen\<close> is a ghost log: which invocation's dispatcher
  started with which pair of clients.
\<close>

record interleaved =
  globals :: server_state
  saved :: "nat \<rightharpoonup> service_client \<times> service_client"
  seen :: "(nat \<times> service_client \<times> service_client) list"

datatype turn = Enter nat "string option" "string option" | Leave nat

definition enter_call :: "nat \<Rightarrow> string option \<Rightarrow> string option \<Rightarrow> interleaved \<Rightarrow> interleaved" where
  "enter_call i jira_token confluence_token C =
     (let s = globals C;
          original_jira = sm_jira_client s;
          original_confluence = sm_confluence_client s;
          s1 = observe (install (temp_jira_client_of s jira_token)
                          (temp_confluence_client_of s confluence_token) s)
      in C\<lparr>globals := s1,
           saved := (saved C)(i \<mapsto> (original_jira, original_confluence)),
           seen := seen C @ [(i, sm_jira_client s1, sm_confluence_client s1)]\<rparr>)"

definition leave_call :: "nat \<Rightarrow> interleaved \<Rightarrow> interleaved" where
  "leave_call i C =
     (case saved C i of
        None \<Rightarrow> C
      | Some (original_jira, original_confluence) \<Rightarrow>
          C\<lparr>globals := restore original_jira original_confluence (globals C),
            saved := (saved C)(i := None)\<rparr>)"

fun interleave :: "turn list \<Rightarrow> interleaved \<Rightarrow> interleaved" where
  "interleave [] C = C"
| "interleave (Enter i jira_token confluence_token # ts) C =
     interleave ts (enter_call i jira_token confluence_token C)"
| "interleave (Leave i # ts) C = interleave ts (leave_call i C)"

section \<open>An invariant of the generator\<close>

text \<open>
  What holds of a stream at every moment: the \<^verbatim>\<open>finally\<close> block has run once the
  generator has finished and not before, and the queue is registered until then.
\<close>

definition dereg_inv :: "stream \<Rightarrow> bool" where
  "dereg_inv S =
     (deregistrations S = (if point S = Finished then 1 else 0) \<and>
      (client_queue S \<in> connected_clients (transport S)) = (point S \<noteq> Finished))"

section \<open>Concrete inputs\<close>

definition example_state :: server_state where
  "example_state =
     (let j = \<lparr>config = \<lparr>url = ''https://jira.example'', username = Some ''svc'',
                           api_token = Some ''k1'', personal_token = None,
                           ssl_verify = True\<rparr>,
               session = Some 1\<rparr>;
          c = \<lparr>config = \<lparr>url = ''https://wiki.example'', username = None, api_token = None,
                           personal_token = Some ''w0'', ssl_verify = False\<rparr>,
               session = None\<rparr>
      in \<lparr>jira_client = j, confluence_client = c, sm_jira_client = j,
          sm_confluence_client = c, dispatch_log = []\<rparr>)"

definition example_env :: env where
  "example_env =
     \<lparr>get_capabilities = Inr (JObj []),
      get_capabilities_noargs = Inr (JObj [(''tools'', JObj [])]),
      handle_list_tools = Inr [],
      handle_call_tool = (\<lambda>j c n a. Inl (Error ''upstream failure'')),
      handle_list_resources = (\<lambda>j c. Inr []),
      str_other = (\<lambda>v. ''?''),
      time_time = (\<lambda>k. 1000 + 30 * real k)\<rparr>"

text \<open>
  The handshake calls \<^verbatim>\<open>server.get_capabilities()\<close> with no argument (line 180),
  where the branch \<^verbatim>\<open>initialize\<close> passes \<^verbatim>\<open>notification_options\<close> and
  \<^verbatim>\<open>experimental_capabilities\<close> to the same method (lines 309 to 312). A call
  that leaves out arguments the method requires raises \<^verbatim>\<open>TypeError\<close> before the
  method runs.
\<close>

definition failing_handshake_env :: env where
  "failing_handshake_env =
     example_env\<lparr>get_capabilities_noargs :=
       Inl (Error (''Server.get_capabilities() missing 2 required positional arguments: '' @
                   quoted ''notification_options'' @ '' and '' @
                   quoted ''experimental_capabilities''))\<rparr>"

text \<open>A dispatcher whose answer tells which Jira client it was run with.\<close>

definition echo_env :: env where
  "echo_env =
     example_env\<lparr>handle_call_tool :=
       (\<lambda>j c n a. Inr (case personal_token (config j) of
                           Some t \<Rightarrow> JStr t | None \<Rightarrow> JNull))\<rparr>"

definition example_transport :: sse_transport where
  "example_transport = \<lparr>connected_clients = {}, queues = (\<lambda>q. []), next_queue = 0\<rparr>"

definition example_interleaved :: interleaved where
  "example_interleaved = \<lparr>globals = example_state, saved = Map.empty, seen = []\<rparr>"

text \<open>
  The state after two requests that overlapped: request 0 with
  \<^verbatim>\<open>X-Jira-Token: tokA\<close>, request 1 with \<^verbatim>\<open>X-Confluence-Token: tokB\<close>, in the
  order enter 0, enter 1, leave 0, leave 1. No request is in flight any more.
\<close>

definition leaked_state :: server_state where
  "leaked_state =
     globals (interleave [Enter 0 (Some ''tokA'') None, Enter 1 None (Some ''tokB''),
                          Leave 0, Leave 1] example_interleaved)"

section \<open>Properties\<close>

subsection \<open>Reading a request\<close>

lemma py_get_Inr_dict: "py_get v k d = Inr x \<Longrightarrow> \<exists>kvs. v = JObj kvs"
  by (cases v) simp_all

lemma py_get_is_dict: "py_get v k d = Inr x \<Longrightarrow> is_dict v"
  by (cases v) simp_all

subsection \<open>The state after a request\<close>

lemma swap_restore:
  "restore (sm_jira_client s) (sm_confluence_client s) (observe (install tj tc s)) =
     s\<lparr>dispatch_log := dispatch_log s @
          [(case tj of Some c \<Rightarrow> c | None \<Rightarrow> sm_jira_client s,
            case tc of Some c \<Rightarrow> c | None \<Rightarrow> sm_confluence_client s)]\<rparr>"
  by (simp add: restore_def observe_def install_def Let_def split: option.splits)

lemma tools_call_branch_state:
  "fst (tools_call_branch E s params rid tj tc) =
     (if is_dict params then
        s\<lparr>dispatch_log := dispatch_log s @
          [(case tj of Some c \<Rightarrow> c | None \<Rightarrow> sm_jira_client s,
            case tc of Some c \<Rightarrow> c | None \<Rightarrow> sm_confluence_client s)]\<rparr>
      else s)"
  by (cases params) (simp_all add: tools_call_branch_def Let_def swap_restore)

lemma resources_list_branch_state:
  "fst (resources_list_branch E s rid tj tc) =
     s\<lparr>dispatch_log := dispatch_log s @
          [(case tj of Some c \<Rightarrow> c | None \<Rightarrow> sm_jira_client s,
            case tc of Some c \<Rightarrow> c | None \<Rightarrow> sm_confluence_client s)]\<rparr>"
  by (simp add: resources_list_branch_def Let_def swap_restore)

lemma process_try_state:
  "fst (process_try E s rd jt ct) =
     (case py_get rd ''method'' JNull of
        Inl e \<Rightarrow> s
      | Inr m \<Rightarrow>
          if (m = JStr ''tools/call'' \<and> (\<exists>p. py_get rd ''params'' (JObj []) = Inr p \<and> is_dict p))
             \<or> m = JStr ''resources/list''
          then s\<lparr>dispatch_log := dispatch_log s @
                 [(case temp_jira_client_of s jt of Some c \<Rightarrow> c | None \<Rightarrow> sm_jira_client s,
                   case temp_confluence_client_of s ct of
                     Some c \<Rightarrow> c | None \<Rightarrow> sm_confluence_client s)]\<rparr>
          else s)"
  by (cases rd)
     (simp_all add: process_try_def Let_def tools_call_branch_state resources_list_branch_state)

lemma process_mcp_request_fst:
  "fst (process_mcp_request E s rd jt ct) = fst (process_try E s rd jt ct)"
  by (simp add: process_mcp_request_def split: prod.splits sum.splits)

lemma process_mcp_request_state:
  "fst (process_mcp_request E s rd jt ct) =
     (case py_get rd ''method'' JNull of
        Inl e \<Rightarrow> s
      | Inr m \<Rightarrow>
          if (m = JStr ''tools/call'' \<and> (\<exists>p. py_get rd ''params'' (JObj []) = Inr p \<and> is_dict p))
             \<or> m = JStr ''resources/list''
          then s\<lparr>dispatch_log := dispatch_log s @
                 [(case temp_jira_client_of s jt of Some c \<Rightarrow> c | None \<Rightarrow> sm_jira_client s,
                   case temp_confluence_client_of s ct of
                     Some c \<Rightarrow> c | None \<Rightarrow> sm_confluence_client s)]\<rparr>
          else s)"
  by (simp only: process_mcp_request_fst process_try_state)

lemma process_mcp_request_frame:
  "jira_client (fst (process_mcp_request E s rd jt ct)) = jira_client s"
  "confluence_client (fst (process_mcp_request E s rd jt ct)) = confluence_client s"
  "sm_jira_client (fst (process_mcp_request E s rd jt ct)) = sm_jira_client s"
  "sm_confluence_client (fst (process_mcp_request E s rd jt ct)) = sm_confluence_client s"
  by (simp_all add: process_mcp_request_state split: sum.splits)

lemma mcp_endpoint_fst:
  "fst (mcp_endpoint E s headers body) =
     (case body of
        Inl e \<Rightarrow> s
      | Inr rd \<Rightarrow>
          fst (process_mcp_request E s rd (fst (extract_tokens headers))
                 (snd (extract_tokens headers))))"
  by (simp add: mcp_endpoint_def split: prod.splits sum.splits)

text \<open>
  A body that is a JSON object always gets an envelope, with the id of the request:
  the failure of C5 below is confined to bodies that are not objects.
\<close>

lemma process_mcp_request_object:
  "\<exists>response. snd (process_mcp_request E s (JObj kvs) jt ct) = Inr response \<and>
     py_get response ''jsonrpc'' JNull = Inr (JStr ''2.0'') \<and>
     py_get response ''id'' JNull = py_get (JObj kvs) ''id'' JNull"
proof -
  obtain s' r where run: "process_try E s (JObj kvs) jt ct = (s', r)"
    by (cases "process_try E s (JObj kvs) jt ct")
  show ?thesis
  proof (cases r)
    case (Inl e)
    then show ?thesis
      using run by (simp add: process_mcp_request_def error_envelope_def)
  next
    case (Inr response)
    have "py_get response ''jsonrpc'' JNull = Inr (JStr ''2.0'') \<and>
          py_get response ''id'' JNull = py_get (JObj kvs) ''id'' JNull"
      using run unfolding Inr
      by (auto simp add: process_try_def Let_def initialize_branch_def tools_list_branch_def
          tools_call_branch_def resources_list_branch_def result_envelope_def
          error_envelope_def not_found_envelope_def
          split: if_splits sum.splits json.splits)
    then show ?thesis
      using run Inr by (simp add: process_mcp_request_def)
  qed
qed

lemma mcp_endpoint_object:
  "\<exists>response. snd (mcp_endpoint E s headers (Inr (JObj kvs))) = Inr response \<and>
     py_get response ''jsonrpc'' JNull = Inr (JStr ''2.0'') \<and>
     py_get response ''id'' JNull = py_get (JObj kvs) ''id'' JNull"
proof -
  obtain jt ct where t: "extract_tokens headers = (jt, ct)"
    by (cases "extract_tokens headers")
  obtain response where
    "snd (process_mcp_request E s (JObj kvs) jt ct) = Inr response"
    "py_get response ''jsonrpc'' JNull = Inr (JStr ''2.0'')"
    "py_get response ''id'' JNull = py_get (JObj kvs) ''id'' JNull"
    using process_mcp_request_object by blast
  then show ?thesis
    by (cases "process_mcp_request E s (JObj kvs) jt ct") (simp add: mcp_endpoint_def t)
qed

subsection \<open>The claims about \<^verbatim>\<open>/mcp\<close>\<close>

text \<open>
  C6. When the body of a request to /mcp fails to parse as JSON, the response is the
  JSON-RPC error envelope with code -32603 and id null, and the state is the one before
  the request: no global of the server module was assigned and the dispatcher log has
  no new entry.
\<close>

theorem mcp_endpoint_parse_failure:
  "mcp_endpoint E s headers (Inl e) =
     (s, Inr (JObj [(''jsonrpc'', JStr ''2.0''), (''id'', JNull),
                    (''error'', JObj [(''code'', JInt (- 32603)),
                                      (''message'', JStr ''Internal error''),
                                      (''data'', JStr (exc_str e))])]))"
  by (simp add: mcp_endpoint_def error_envelope_def)

text \<open>
  C7. For a request that is an object and whose method \<open>m\<close> is none of
  \<^verbatim>\<open>initialize\<close>, \<^verbatim>\<open>tools/list\<close>, \<^verbatim>\<open>tools/call\<close>, \<^verbatim>\<open>resources/list\<close>,
  \<^verbatim>\<open>process_mcp_request\<close> returns the error envelope with code -32601, the message
  \<^verbatim>\<open>Method not found: \<close> followed by the method, and the id of the request; the
  state is unchanged, so no client was substituted and the dispatcher did not run.
\<close>

theorem method_not_found:
  assumes "py_get request_data ''method'' JNull = Inr m"
    and "m \<noteq> JStr ''initialize''" and "m \<noteq> JStr ''tools/list''"
    and "m \<noteq> JStr ''tools/call''" and "m \<noteq> JStr ''resources/list''"
    and "py_get request_data ''id'' JNull = Inr request_id"
  shows "process_mcp_request E s request_data jira_token confluence_token =
     (s, Inr (JObj [(''jsonrpc'', JStr ''2.0''), (''id'', request_id),
                    (''error'', JObj [(''code'', JInt (- 32601)),
                                      (''message'',
                                       JStr (''Method not found: '' @ py_str E m))])]))"
proof -
  obtain kvs where rd: "request_data = JObj kvs"
    using assms(1) py_get_Inr_dict by blast
  show ?thesis
    using assms unfolding rd
    by (simp add: process_mcp_request_def process_try_def not_found_envelope_def Let_def)
qed

theorem method_not_found_witness:
  "process_mcp_request example_env example_state
     (JObj [(''jsonrpc'', JStr ''2.0''), (''id'', JInt 7), (''method'', JStr ''nope'')])
     (Some ''tokA'') None =
     (example_state,
      Inr (JObj [(''jsonrpc'', JStr ''2.0''), (''id'', JInt 7),
                 (''error'', JObj [(''code'', JInt (- 32601)),
                                   (''message'', JStr ''Method not found: nope'')])]))"
  using method_not_found
    [of "JObj [(''jsonrpc'', JStr ''2.0''), (''id'', JInt 7), (''method'', JStr ''nope'')]"
        "JStr ''nope''" "JInt 7" example_env example_state "Some ''tokA''" None]
  by simp

text \<open>
  C5. Every JSON body posted to /mcp should get one JSON-RPC envelope. The body
  \<^verbatim>\<open>[]\<close> parses as JSON and is not an object: \<^verbatim>\<open>request_data.get("method")\<close>
  raises \<^verbatim>\<open>AttributeError\<close>, the handler of \<^verbatim>\<open>process_mcp_request\<close> raises it again
  at \<^verbatim>\<open>request_data.get("id")\<close>, and so does the handler of \<^verbatim>\<open>mcp_endpoint\<close>, where
  \<^verbatim>\<open>request_data\<close> is among the locals. The exception leaves the endpoint: no
  envelope is returned.
\<close>

theorem mcp_endpoint_list_body_raises:
  "mcp_endpoint E s headers (Inr (JArr [])) =
     (s, Inl (Error (quoted ''list'' @ '' object has no attribute '' @ quoted ''get'')))"
  by (simp add: mcp_endpoint_def process_mcp_request_def process_try_def no_get_def
      split: prod.splits)




lemma temp_jira_client_config:
  "temp_jira_client_of s jira_token = Some c \<Longrightarrow>
      url (config c) = url (config (jira_client s)) \<and>
      ssl_verify (config c) = ssl_verify (config (jira_client s)) \<and>
      personal_token (config c) = jira_token"
proof (cases jira_token)
  case None
  assume "temp_jira_client_of s jira_token = Some c"
  then show ?thesis using None by (simp add: temp_jira_client_of_def)
next
  case (Some t)
  assume "temp_jira_client_of s jira_token = Some c"
  then have "t \<noteq> [] \<and> c = JiraClient (JiraConfig (url (config (jira_client s))) t
                                   (ssl_verify (config (jira_client s))))"
    using Some by (cases "t = []") (simp_all add: temp_jira_client_of_def)
  then show ?thesis using Some by (simp add: JiraClient_def JiraConfig_def)
qed

lemma temp_confluence_client_config:
  "temp_confluence_client_of s confluence_token = Some c \<Longrightarrow>
      url (config c) = url (config (confluence_client s)) \<and>
      ssl_verify (config c) = ssl_verify (config (confluence_client s)) \<and>
      personal_token (config c) = confluence_token"
proof (cases confluence_token)
  case None
  assume "temp_confluence_client_of s confluence_token = Some c"
  then show ?thesis using None by (simp add: temp_confluence_client_of_def)
next
  case (Some t)
  assume "temp_confluence_client_of s confluence_token = Some c"
  then have "t \<noteq> [] \<and>
      c = ConfluenceClient (ConfluenceConfig (url (config (confluence_client s))) t
                              (ssl_verify (config (confluence_client s))))"
    using Some by (cases "t = []") (simp_all add: temp_confluence_client_of_def)
  then show ?thesis using Some by (simp add: ConfluenceClient_def ConfluenceConfig_def)
qed

text \<open>
  C4. A temporary client built by the resolution step has the url and the ssl_verify
  of the default client's configuration and the request's token as personal token, and
  the default clients are, after the request, what they were before it, whatever the
  request and the dispatcher do.
\<close>

theorem override_config_frame:
  "(\<forall>c. temp_jira_client_of s jira_token = Some c \<longrightarrow>
      url (config c) = url (config (jira_client s)) \<and>
      ssl_verify (config c) = ssl_verify (config (jira_client s)) \<and>
      personal_token (config c) = jira_token) \<and>
   (\<forall>c. temp_confluence_client_of s confluence_token = Some c \<longrightarrow>
      url (config c) = url (config (confluence_client s)) \<and>
      ssl_verify (config c) = ssl_verify (config (confluence_client s)) \<and>
      personal_token (config c) = confluence_token) \<and>
   jira_client (fst (process_mcp_request E s request_data jira_token confluence_token)) =
     jira_client s \<and>
   confluence_client (fst (process_mcp_request E s request_data jira_token confluence_token)) =
     confluence_client s \<and>
   jira_client (fst (mcp_endpoint E s headers body)) = jira_client s \<and>
   confluence_client (fst (mcp_endpoint E s headers body)) = confluence_client s"
proof (intro conjI allI impI)
  fix c
  assume "temp_jira_client_of s jira_token = Some c"
  then show "url (config c) = url (config (jira_client s))"
    and "ssl_verify (config c) = ssl_verify (config (jira_client s))"
    and "personal_token (config c) = jira_token"
    using temp_jira_client_config by blast+
next
  fix c
  assume "temp_confluence_client_of s confluence_token = Some c"
  then show "url (config c) = url (config (confluence_client s))"
    and "ssl_verify (config c) = ssl_verify (config (confluence_client s))"
    and "personal_token (config c) = confluence_token"
    using temp_confluence_client_config by blast+
next
  show "jira_client (fst (process_mcp_request E s request_data jira_token confluence_token)) =
     jira_client s"
    by (rule process_mcp_request_frame)
  show "confluence_client
      (fst (process_mcp_request E s request_data jira_token confluence_token)) =
     confluence_client s"
    by (rule process_mcp_request_frame)
  show "jira_client (fst (mcp_endpoint E s headers body)) = jira_client s"
    by (cases body) (simp_all add: mcp_endpoint_fst process_mcp_request_frame)
  show "confluence_client (fst (mcp_endpoint E s headers body)) = confluence_client s"
    by (cases body) (simp_all add: mcp_endpoint_fst process_mcp_request_frame)
qed

theorem override_config_frame_witness:
  "temp_jira_client_of example_state (Some ''tokA'') =
     Some (JiraClient (JiraConfig ''https://jira.example'' ''tokA'' True)) \<and>
   url (config (JiraClient (JiraConfig ''https://jira.example'' ''tokA'' True))) =
     url (config (jira_client example_state)) \<and>
   ssl_verify (config (JiraClient (JiraConfig ''https://jira.example'' ''tokA'' True))) =
     ssl_verify (config (jira_client example_state)) \<and>
   personal_token (config (JiraClient (JiraConfig ''https://jira.example'' ''tokA'' True))) =
     Some ''tokA'' \<and>
   temp_confluence_client_of example_state (Some ''tokB'') =
     Some (ConfluenceClient (ConfluenceConfig ''https://wiki.example'' ''tokB'' False)) \<and>
   url (config (ConfluenceClient (ConfluenceConfig ''https://wiki.example'' ''tokB'' False))) =
     url (config (confluence_client example_state)) \<and>
   ssl_verify
     (config (ConfluenceClient (ConfluenceConfig ''https://wiki.example'' ''tokB'' False))) =
     ssl_verify (config (confluence_client example_state)) \<and>
   personal_token
     (config (ConfluenceClient (ConfluenceConfig ''https://wiki.example'' ''tokB'' False))) =
     Some ''tokB''"
proof -
  have j: "temp_jira_client_of example_state (Some ''tokA'') =
     Some (JiraClient (JiraConfig ''https://jira.example'' ''tokA'' True))"
    by (simp add: temp_jira_client_of_def example_state_def Let_def)
  have c: "temp_confluence_client_of example_state (Some ''tokB'') =
     Some (ConfluenceClient (ConfluenceConfig ''https://wiki.example'' ''tokB'' False))"
    by (simp add: temp_confluence_client_of_def example_state_def Let_def)
  note frame = override_config_frame [of example_state "Some ''tokA''" "Some ''tokB''"]
  note J = frame [THEN conjunct1, rule_format, OF j]
  note C = frame [THEN conjunct2, THEN conjunct1, rule_format, OF c]
  from j c J C show ?thesis by (intro conjI) (rule refl | assumption | erule conjE)+
qed

text \<open>
  An invocation of \<^verbatim>\<open>tools/call\<close> or \<^verbatim>\<open>resources/list\<close> that starts while the
  globals of the server module hold the default clients: after it the two globals hold
  what they held before, whether the dispatcher returned or raised, and the dispatcher
  ran once, with the temporary client where a token (a string that is not empty) was
  given and the default client otherwise. It did not run only where \<^verbatim>\<open>tools/call\<close>
  has params that are not an object. The example takes a dispatcher that raises.
\<close>

lemma swap_and_restore:
  assumes "py_get request_data ''method'' JNull = Inr m"
    and "m = JStr ''tools/call'' \<or> m = JStr ''resources/list''"
    and "py_get request_data ''params'' (JObj []) = Inr params"
    and "sm_jira_client s = jira_client s"
    and "sm_confluence_client s = confluence_client s"
  shows
    "sm_jira_client (fst (process_mcp_request E s request_data jira_token confluence_token)) =
       sm_jira_client s \<and>
     sm_confluence_client
       (fst (process_mcp_request E s request_data jira_token confluence_token)) =
       sm_confluence_client s \<and>
     dispatch_log (fst (process_mcp_request E s request_data jira_token confluence_token)) =
       dispatch_log s @
         (if m = JStr ''tools/call'' \<and> \<not> is_dict params then []
          else [(active_jira_client s jira_token,
                 active_confluence_client s confluence_token)])"
proof -
  have "dispatch_log (fst (process_mcp_request E s request_data jira_token confluence_token)) =
       dispatch_log s @
         (if m = JStr ''tools/call'' \<and> \<not> is_dict params then []
          else [(active_jira_client s jira_token,
                 active_confluence_client s confluence_token)])"
    using assms
    by (auto simp add: process_mcp_request_state active_jira_client_def
        active_confluence_client_def split: option.splits)
  then show ?thesis by (simp add: process_mcp_request_frame)
qed

lemma swap_and_restore_example:
  "sm_jira_client
     (fst (process_mcp_request example_env example_state
        (JObj [(''id'', JInt 2), (''method'', JStr ''tools/call''),
               (''params'', JObj [(''name'', JStr ''get-issue'')])])
        (Some ''tokA'') None)) = jira_client example_state \<and>
   sm_confluence_client
     (fst (process_mcp_request example_env example_state
        (JObj [(''id'', JInt 2), (''method'', JStr ''tools/call''),
               (''params'', JObj [(''name'', JStr ''get-issue'')])])
        (Some ''tokA'') None)) = confluence_client example_state \<and>
   dispatch_log
     (fst (process_mcp_request example_env example_state
        (JObj [(''id'', JInt 2), (''method'', JStr ''tools/call''),
               (''params'', JObj [(''name'', JStr ''get-issue'')])])
        (Some ''tokA'') None)) =
     [(JiraClient (JiraConfig ''https://jira.example'' ''tokA'' True),
       confluence_client example_state)] \<and>
   snd (process_mcp_request example_env example_state
        (JObj [(''id'', JInt 2), (''method'', JStr ''tools/call''),
               (''params'', JObj [(''name'', JStr ''get-issue'')])])
        (Some ''tokA'') None) =
     Inr (error_envelope (JInt 2) (- 32603) ''Internal error''
            ''Tool execution failed: upstream failure'')"
proof -
  let ?rd = "JObj [(''id'', JInt 2), (''method'', JStr ''tools/call''),
                   (''params'', JObj [(''name'', JStr ''get-issue'')])]"
  have q: "sm_jira_client example_state = jira_client example_state"
    "sm_confluence_client example_state = confluence_client example_state"
    "dispatch_log example_state = []"
    by (simp_all add: example_state_def Let_def)
  have act: "active_jira_client example_state (Some ''tokA'') =
      JiraClient (JiraConfig ''https://jira.example'' ''tokA'' True)"
    "active_confluence_client example_state None = confluence_client example_state"
    by (simp_all add: active_jira_client_def active_confluence_client_def
        temp_jira_client_of_def temp_confluence_client_of_def example_state_def Let_def)
  have r: "snd (process_mcp_request example_env example_state ?rd (Some ''tokA'') None) =
     Inr (error_envelope (JInt 2) (- 32603) ''Internal error''
            ''Tool execution failed: upstream failure'')"
    by (simp add: process_mcp_request_def process_try_def tools_call_branch_def Let_def
        example_env_def)
  from swap_and_restore
    [of ?rd "JStr ''tools/call''" "JObj [(''name'', JStr ''get-issue'')]" example_state
        example_env "Some ''tokA''" None]
  show ?thesis using q act r by simp
qed

text \<open>
  The split of an invocation into entering and leaving agrees with the function: an
  invocation that enters and leaves with nothing in between changes the state as
  \<^verbatim>\<open>process_mcp_request\<close> does.
\<close>

lemma enter_leave_is_tools_call:
  assumes "py_get request_data ''method'' JNull = Inr (JStr ''tools/call'')"
    and "py_get request_data ''params'' (JObj []) = Inr params" and "is_dict params"
  shows "globals (leave_call i (enter_call i jira_token confluence_token C)) =
     fst (process_mcp_request E (globals C) request_data jira_token confluence_token)"
  using assms
  by (simp add: process_mcp_request_state leave_call_def enter_call_def Let_def swap_restore)

text \<open>
  What the dispatcher of \<^verbatim>\<open>tools/call\<close> is run with, for any state: the
  temporary client where there is one, and otherwise whatever the global of the server
  module holds when the invocation starts.
\<close>

lemma tools_call_response:
  assumes "py_get request_data ''method'' JNull = Inr (JStr ''tools/call'')"
    and "py_get request_data ''params'' (JObj []) = Inr (JObj ps)"
    and "py_get request_data ''id'' JNull = Inr request_id"
  shows "snd (process_mcp_request E s request_data jira_token confluence_token) =
     Inr (case handle_call_tool E
                 (case temp_jira_client_of s jira_token of
                    Some c \<Rightarrow> c | None \<Rightarrow> sm_jira_client s)
                 (case temp_confluence_client_of s confluence_token of
                    Some c \<Rightarrow> c | None \<Rightarrow> sm_confluence_client s)
                 (case map_of ps ''name'' of Some v \<Rightarrow> v | None \<Rightarrow> JNull)
                 (case map_of ps ''arguments'' of Some v \<Rightarrow> v | None \<Rightarrow> JObj []) of
            Inr res \<Rightarrow> result_envelope request_id (JObj [(''content'', res)])
          | Inl e \<Rightarrow>
              error_envelope request_id (- 32603) ''Internal error''
                (''Tool execution failed: '' @ exc_str e))"
proof -
  obtain kvs where rd: "request_data = JObj kvs"
    using assms(1) py_get_Inr_dict by blast
  show ?thesis
    using assms unfolding rd
    by (simp add: process_mcp_request_def process_try_def tools_call_branch_def Let_def
        install_def split: option.splits)
qed

lemma leaked_state_fields:
  "sm_jira_client leaked_state = JiraClient (JiraConfig ''https://jira.example'' ''tokA'' True)"
  "sm_confluence_client leaked_state = confluence_client example_state"
  "jira_client leaked_state = jira_client example_state"
  "confluence_client leaked_state = confluence_client example_state"
  by (simp_all add: leaked_state_def example_interleaved_def enter_call_def leave_call_def
      Let_def observe_def install_def restore_def temp_jira_client_of_def
      temp_confluence_client_of_def example_state_def)

text \<open>
  C1. An invocation should run the dispatcher with the clients resolved for it, the
  temporary client where a token was supplied and the default client otherwise, and
  leave the globals as they were. Take the state that the two overlapping requests of
  C2 leave behind and, with no request in flight, a \<^verbatim>\<open>tools/call\<close> without any
  token. The client in force for it is the default Jira client, which has no personal
  token. The dispatcher is run with the temporary client of the earlier request 0
  (token \<^verbatim>\<open>tokA\<close>), as its answer and the log show, and the invocation leaves that
  client in the global.
\<close>

theorem tokenless_call_runs_with_leaked_client:
  "process_mcp_request echo_env leaked_state
     (JObj [(''id'', JInt 3), (''method'', JStr ''tools/call''),
            (''params'', JObj [(''name'', JStr ''get-issue'')])])
     None None =
     (leaked_state\<lparr>dispatch_log := dispatch_log leaked_state @
        [(JiraClient (JiraConfig ''https://jira.example'' ''tokA'' True),
          confluence_client example_state)]\<rparr>,
      Inr (JObj [(''jsonrpc'', JStr ''2.0''), (''id'', JInt 3),
                 (''result'', JObj [(''content'', JStr ''tokA'')])])) \<and>
   active_jira_client leaked_state None = jira_client example_state \<and>
   personal_token (config (jira_client example_state)) = None \<and>
   sm_jira_client leaked_state = JiraClient (JiraConfig ''https://jira.example'' ''tokA'' True)"
proof -
  let ?rd = "JObj [(''id'', JInt 3), (''method'', JStr ''tools/call''),
                   (''params'', JObj [(''name'', JStr ''get-issue'')])]"
  have st: "fst (process_mcp_request echo_env leaked_state ?rd None None) =
     leaked_state\<lparr>dispatch_log := dispatch_log leaked_state @
        [(JiraClient (JiraConfig ''https://jira.example'' ''tokA'' True),
          confluence_client example_state)]\<rparr>"
    by (simp add: process_mcp_request_state temp_jira_client_of_def
        temp_confluence_client_of_def leaked_state_fields)
  have "snd (process_mcp_request echo_env leaked_state ?rd None None) =
     Inr (result_envelope (JInt 3) (JObj [(''content'', JStr ''tokA'')]))"
    using tools_call_response
      [of ?rd "[(''name'', JStr ''get-issue'')]" "JInt 3" echo_env leaked_state None None]
    by (simp add: temp_jira_client_of_def temp_confluence_client_of_def leaked_state_fields
        echo_env_def JiraClient_def JiraConfig_def)
  then have r: "snd (process_mcp_request echo_env leaked_state ?rd None None) =
     Inr (JObj [(''jsonrpc'', JStr ''2.0''), (''id'', JInt 3),
                (''result'', JObj [(''content'', JStr ''tokA'')])])"
    by (simp add: result_envelope_def)
  have a: "active_jira_client leaked_state None = jira_client example_state"
    by (simp add: active_jira_client_def temp_jira_client_of_def leaked_state_fields)
  have t: "personal_token (config (jira_client example_state)) = None"
    by (simp add: example_state_def Let_def)
  from st r a t leaked_state_fields(1) show ?thesis
    by (cases "process_mcp_request echo_env leaked_state ?rd None None") simp
qed

text \<open>
  C2. Two requests with different credential overrides should never observe each
  other's clients. Request 0 carries \<^verbatim>\<open>X-Jira-Token: tokA\<close> and request 1 carries
  \<^verbatim>\<open>X-Confluence-Token: tokB\<close>; request 1 enters while the dispatcher of request 0
  waits for its upstream call. The dispatcher of request 1 then starts with the
  temporary Jira client of request 0, where the client in force for request 1 is the
  default one; and when both have left, the global still holds the temporary Jira
  client of request 0.
\<close>

theorem interleaved_calls_observe_foreign_client:
  "seen (interleave [Enter 0 (Some ''tokA'') None, Enter 1 None (Some ''tokB''),
                     Leave 0, Leave 1] example_interleaved) =
     [(0, JiraClient (JiraConfig ''https://jira.example'' ''tokA'' True),
          confluence_client example_state),
      (1, JiraClient (JiraConfig ''https://jira.example'' ''tokA'' True),
          ConfluenceClient (ConfluenceConfig ''https://wiki.example'' ''tokB'' False))] \<and>
   active_jira_client example_state None = jira_client example_state \<and>
   JiraClient (JiraConfig ''https://jira.example'' ''tokA'' True) \<noteq> jira_client example_state \<and>
   sm_jira_client
     (globals (interleave [Enter 0 (Some ''tokA'') None, Enter 1 None (Some ''tokB''),
                           Leave 0, Leave 1] example_interleaved)) =
     JiraClient (JiraConfig ''https://jira.example'' ''tokA'' True)"
  by (simp add: example_interleaved_def enter_call_def leave_call_def Let_def observe_def
      install_def restore_def temp_jira_client_of_def temp_confluence_client_of_def
      active_jira_client_def example_state_def JiraClient_def JiraConfig_def)

subsection \<open>The streaming generator\<close>

lemma run_stream_append: "run_stream E (evs @ evs') S = run_stream E evs' (run_stream E evs S)"
  by (induction evs arbitrary: S) simp_all

lemma inner_handlers_case:
  "inner_handlers E e S =
     (case e of
        TimeoutError \<Rightarrow> send_heartbeat E S
      | Error m \<Rightarrow> emit Internal_error (error_message ''Internal error'' m) At_error S)"
  by (cases e) simp_all

lemmas stream_defs = inner_handlers_case emit_def cleanup_def send_heartbeat_def
  outer_handler_def take_message_def remove_client_def send_message_def

lemma dereg_inv_start: "dereg_inv (event_stream_start E T)"
  by (simp add: dereg_inv_def event_stream_start_def add_client_def Let_def stream_defs
      split: sum.splits)

lemma dereg_inv_resume: "dereg_inv S \<Longrightarrow> dereg_inv (resume E ev S)"
  by (cases ev; cases "point S"; cases "queues (transport S) (client_queue S)")
     (auto simp add: dereg_inv_def stream_defs split: exc.splits)

lemma dereg_inv_run: "dereg_inv S \<Longrightarrow> dereg_inv (run_stream E evs S)"
  by (induction evs arbitrary: S) (simp_all add: dereg_inv_resume)

lemma failed_resume:
  "point S = At_stream_error \<or> point S = Finished \<Longrightarrow>
   frames (resume E ev S) = frames S \<and>
   (point (resume E ev S) = At_stream_error \<or> point (resume E ev S) = Finished)"
  by (cases ev) (auto simp add: cleanup_def)

lemma failed_run:
  "point S = At_stream_error \<or> point S = Finished \<Longrightarrow> frames (run_stream E evs S) = frames S"
proof (induction evs arbitrary: S)
  case Nil
  then show ?case by simp
next
  case (Cons ev evs)
  from failed_resume [OF Cons.prems, of E ev]
  have "frames (resume E ev S) = frames S"
    and "point (resume E ev S) = At_stream_error \<or> point (resume E ev S) = Finished"
    by simp_all
  then show ?case using Cons.IH [of "resume E ev S"] by simp
qed

lemma failed_start:
  "get_capabilities_noargs E = Inl e \<Longrightarrow>
   frames (event_stream_start E T) = [(Stream_error, error_message ''Stream error'' (exc_str e))] \<and>
   point (event_stream_start E T) = At_stream_error"
  by (simp add: event_stream_start_def add_client_def Let_def outer_handler_def emit_def)

text \<open>
  C8. The first frame of every stream should be the handshake, followed by forwarded
  messages and heartbeats. The handshake is built inside the outer \<^verbatim>\<open>try\<close>, by
  \<^verbatim>\<open>server.get_capabilities()\<close> without the arguments that the branch
  \<^verbatim>\<open>initialize\<close> passes to it. When that call raises, the outer handler (lines
  216 to 226) emits a -32603 envelope \<^verbatim>\<open>Stream error\<close>, which is then the first
  frame and the only one, whatever happens afterwards: no handshake, no message and no
  heartbeat is ever sent on the connection.
\<close>

theorem handshake_raise_is_only_frame:
  assumes "get_capabilities_noargs E = Inl e"
  shows "frames (event_stream E T evs) =
     [(Stream_error,
       JObj [(''jsonrpc'', JStr ''2.0''),
             (''error'', JObj [(''code'', JInt (- 32603)), (''message'', JStr ''Stream error''),
                               (''data'', JStr (exc_str e))])])]"
proof -
  from failed_start [OF assms, of T]
  have "frames (event_stream_start E T) =
          [(Stream_error, error_message ''Stream error'' (exc_str e))]"
    and "point (event_stream_start E T) = At_stream_error \<or>
         point (event_stream_start E T) = Finished"
    by simp_all
  then show ?thesis
    using failed_run [of "event_stream_start E T" E evs]
    by (simp add: event_stream_def error_message_def)
qed

theorem handshake_raise_is_only_frame_witness:
  "get_capabilities_noargs failing_handshake_env =
     Inl (Error (''Server.get_capabilities() missing 2 required positional arguments: '' @
                 quoted ''notification_options'' @ '' and '' @
                 quoted ''experimental_capabilities'')) \<and>
   frames (event_stream failing_handshake_env example_transport
             [Put (JStr ''a''), Proceed, Raise TimeoutError, Proceed]) =
     [(Stream_error,
       JObj [(''jsonrpc'', JStr ''2.0''),
             (''error'',
              JObj [(''code'', JInt (- 32603)), (''message'', JStr ''Stream error''),
                    (''data'',
                     JStr (''Server.get_capabilities() missing 2 required positional arguments: '' @
                           quoted ''notification_options'' @ '' and '' @
                           quoted ''experimental_capabilities''))])])]"
proof -
  have raises: "get_capabilities_noargs failing_handshake_env =
     Inl (Error (''Server.get_capabilities() missing 2 required positional arguments: '' @
                 quoted ''notification_options'' @ '' and '' @
                 quoted ''experimental_capabilities''))"
    by (simp add: failing_handshake_env_def)
  from handshake_raise_is_only_frame
    [OF raises, of example_transport "[Put (JStr ''a''), Proceed, Raise TimeoutError, Proceed]"]
    raises
  show ?thesis by simp
qed

text \<open>
  C9. A connection registers its queue when the generator starts. Whatever happens
  to the generator afterwards, the \<^verbatim>\<open>finally\<close> block has run once when the
  generator has finished, by whichever path (the consumer closing it, an error in the
  handler of the timeout, an error while a message is forwarded, the transport closing
  the connection), and not at all before; the queue is in the active set exactly while
  the generator has not finished; closing the connection always finishes the generator.
  \<^verbatim>\<open>remove_client\<close> is idempotent, and on a queue that is not in the active set it
  changes nothing; it is total, as \<^verbatim>\<open>set.discard\<close> does not raise.
\<close>

theorem deregistration_once:
  fixes E :: env and T :: sse_transport and evs :: "event list"
  defines "S \<equiv> event_stream E T evs"
  shows
    "deregistrations S = (if point S = Finished then 1 else 0) \<and>
     (client_queue S \<in> connected_clients (transport S)) = (point S \<noteq> Finished) \<and>
     point (event_stream E T (evs @ [Close])) = Finished \<and>
     remove_client q (remove_client q T) = remove_client q T \<and>
     (q \<notin> connected_clients T \<longrightarrow> remove_client q T = T)"
proof -
  have "dereg_inv S"
    unfolding S_def event_stream_def by (rule dereg_inv_run [OF dereg_inv_start])
  moreover have "point (event_stream E T (evs @ [Close])) = Finished"
    by (simp add: event_stream_def run_stream_append cleanup_def)
  moreover have "remove_client q (remove_client q T) = remove_client q T"
    by (simp add: remove_client_def)
  moreover have "q \<notin> connected_clients T \<longrightarrow> remove_client q T = T"
    by (simp add: remove_client_def)
  ultimately show ?thesis by (simp add: dereg_inv_def)
qed

lemma example_heartbeat_error_path:
  "point (event_stream example_env example_transport
            [Proceed, Raise TimeoutError, Raise (Error ''boom''), Proceed]) = Finished"
  "client_queue (event_stream example_env example_transport
            [Proceed, Raise TimeoutError, Raise (Error ''boom''), Proceed]) = 0"
  by (simp_all add: event_stream_def event_stream_start_def example_env_def
      example_transport_def add_client_def Let_def emit_def send_heartbeat_def
      outer_handler_def cleanup_def take_message_def)

theorem deregistration_once_witness:
  "deregistrations (event_stream example_env example_transport
            [Proceed, Raise TimeoutError, Raise (Error ''boom''), Proceed]) = 1 \<and>
   0 \<notin> connected_clients (transport (event_stream example_env example_transport
            [Proceed, Raise TimeoutError, Raise (Error ''boom''), Proceed])) \<and>
   5 \<notin> connected_clients example_transport \<and>
   remove_client 5 example_transport = example_transport"
proof -
  have absent: "5 \<notin> connected_clients example_transport"
    by (simp add: example_transport_def)
  note once = deregistration_once
    [of example_env example_transport
        "[Proceed, Raise TimeoutError, Raise (Error ''boom''), Proceed]" 5]
  from once example_heartbeat_error_path absent show ?thesis by simp
qed

text \<open>
  C10. The stream of \<^verbatim>\<open>POST /sse\<close> does not depend on the request's headers: two
  requests that differ only in their headers give, for the same happenings, the same
  frames and the same state. The temporary configurations built from the headers
  are not read again.
\<close>

theorem sse_ignores_auth_headers:
  "sse_endpoint E s T headers evs = sse_endpoint E s T headers' evs"
  by (simp add: sse_endpoint_def Let_def split: prod.splits)

end
